theory Spec2Isabelle
  imports Main
begin

section \<open>Refunding a crowdloan: the data of \<open>refund.py\<close>\<close>

text \<open>
  The module \<open>bittensor_cli/src/commands/crowd/refund.py\<close> holds one coroutine,
  \<open>refund_crowdloan\<close>. It reads a crowdloan and the current block from the chain, checks
  that the crowdloan may be refunded, prints a table, asks for confirmation, unlocks the
  wallet, submits the \<open>Crowdloan.refund\<close> extrinsic and reports the outcome as a pair
  \<open>(success, message)\<close>.

  The chain client, the wallet, the prompt and the console are not part of the module.
  Their answers are the fields of the record \<open>env\<close>; every call the coroutine makes to one
  of them is written, in program order, to a list of \<open>effect\<close>s that the model returns next
  to the pair.
\<close>

subsection \<open>Python's \<open>str\<close> of an integer\<close>

definition digit_char :: "nat \<Rightarrow> char" where
  "digit_char d = ''0123456789'' ! d"

fun str_nat :: "nat \<Rightarrow> string" where
  "str_nat n = (if n < 10 then [digit_char n] else str_nat (n div 10) @ [digit_char (n mod 10)])"

declare str_nat.simps [simp del]

definition str_int :: "int \<Rightarrow> string" where
  "str_int i = (if i < 0 then CHR ''-'' # str_nat (nat (- i)) else str_nat (nat i))"

subsection \<open>The values read from the collaborators\<close>

text \<open>
  The fields of the crowdloan that the coroutine reads. The field \<open>end\<close> of the source is
  \<open>end_block\<close> here. The amounts \<open>raised\<close>, \<open>cap\<close> and \<open>deposit\<close> are balances, compared and
  subtracted as numbers.
\<close>

record crowdloan =
  end_block :: int
  cap :: int
  raised :: int
  deposit :: int
  contributors_count :: int
  finalized :: bool

text \<open>The result of \<open>unlock_key(wallet)\<close>.\<close>

record unlock_status =
  success :: bool
  message :: string

text \<open>
  The receipt returned by \<open>submit_extrinsic\<close>. Its class is not part of the module. The
  source reads two attributes of it. It awaits \<open>is_success\<close> (line 169), which is therefore
  an awaitable that resolves to a truth value. The attribute \<open>error_message\<close> holds the
  error of a failed extrinsic, a dictionary kept here as an association list. The source
  does not say whether the attribute is the dictionary itself or, as \<open>is_success\<close> is, an
  awaitable that resolves to it; the model keeps both cases.
\<close>

datatype error_message_value =
    Awaitable_dict "(string \<times> string) list"
  | Plain_dict "(string \<times> string) list"

record response =
  is_success :: bool
  error_message :: error_message_value

record env =
  get_single_crowdloan :: "int \<Rightarrow> crowdloan option"
  get_block_number :: int
  get_constant :: "string \<Rightarrow> int"
  confirm_ask :: bool
  unlock_key :: unlock_status
  submit_extrinsic :: "bool \<Rightarrow> bool \<Rightarrow> response"

subsection \<open>What the coroutine prints and calls\<close>

text \<open>
  A row of the table "Crowdloan Refund Information", with the values the source puts in
  it; the status row carries the status string itself.
\<close>

datatype row =
    Row_crowdloan_id int
  | Row_total_contributors int
  | Row_refund_limit int
  | Row_amount_to_refund int
  | Row_status string
  | Row_estimated_calls int

text \<open>
  A text sent to the console, with the values the source interpolates. The rendering of
  numbers with separators and of a block count as a duration (\<open>blocks_to_duration\<close>) is
  left to the console: \<open>Not_yet_ended_text i e r\<close> is the text for crowdloan \<open>i\<close> with end
  block \<open>e\<close>, where \<open>r\<close> is the argument given to \<open>blocks_to_duration\<close>.
\<close>

datatype console_text =
    Not_found_text int
  | Already_finalized_text int
  | Not_yet_ended_text int int int
  | Refund_information_header
  | Info_table "row list"
  | Calls_note int int
  | Refund_cancelled_text
  | Unlock_failed_text string
  | Refund_submitted_text
  | Failed_to_refund_text error_message_value
  | Refund_succeeded_text int

datatype effect =
    Gather_crowdloan_and_block int
  | Print_error console_text
  | Show_crowdloan_details int
  | Get_constant string
  | Console_print console_text
  | Confirm_ask int
  | Unlock_key
  | Compose_call string string int
  | Create_signed_extrinsic
  | Submit_extrinsic bool bool
  | Process_events
  | Is_success
  | Error_message_get string string
  | Print_extrinsic_id

text \<open>The exceptions that the coroutine itself raises.\<close>

datatype py_error = AttributeError | TypeError

text \<open>
  A run ends with the returned pair (\<open>Inr\<close>) or with an exception (\<open>Inl\<close>), after the calls
  of the trace.
\<close>

type_synonym outcome = "(py_error + bool \<times> string) \<times> effect list"

section \<open>The coroutine\<close>

subsection \<open>Status and estimate (lines 100 to 115)\<close>

definition status_failed :: string where
  "status_failed = ''[red]Failed[/red] (Cap not reached)''"

definition status_ended :: string where
  "status_ended = ''[yellow]Ended but not finalized[/yellow]''"

definition status_active :: string where
  "status_active = ''[green]Active[/green] (Still accepting contributions)''"

definition status_of :: "int \<Rightarrow> crowdloan \<Rightarrow> string" where
  "status_of current_block c =
     (if current_block \<ge> end_block c then
        (if raised c < cap c then status_failed else status_ended)
      else status_active)"

text \<open>Python's \<open>//\<close> is floor division, as \<open>div\<close> on \<open>int\<close> is.\<close>

definition estimated_calls :: "int \<Rightarrow> int \<Rightarrow> int" where
  "estimated_calls contributors refund_limit =
     (let refundable_contributors = max 0 contributors
      in if refund_limit > 0
         then (refundable_contributors + refund_limit) div refund_limit
         else 0)"

subsection \<open>Submission and its outcome (lines 144 to 180)\<close>

text \<open>
  The three calls under the spinner of \<open>console.status\<close>, then the outcome. The spinner
  itself leaves no effect in the trace.
\<close>

definition dict_get :: "(string \<times> string) list \<Rightarrow> string \<Rightarrow> string \<Rightarrow> string" where
  "dict_get d k dflt = (case map_of d k of Some v \<Rightarrow> v | None \<Rightarrow> dflt)"

text \<open>
  The call \<open>response.error_message.get(k, dflt)\<close>. An awaitable has no attribute \<open>get\<close>; a
  dictionary answers with the value at the key or with the default.
\<close>

fun attribute_get :: "error_message_value \<Rightarrow> string \<Rightarrow> string \<Rightarrow> py_error + string" where
  "attribute_get (Awaitable_dict d) k dflt = Inl AttributeError"
| "attribute_get (Plain_dict d) k dflt = Inr (dict_get d k dflt)"

text \<open>\<open>await v\<close> for a string \<open>v\<close>: a string cannot be awaited.\<close>

definition await_str :: "string \<Rightarrow> py_error + string" where
  "await_str v = Inl TypeError"

text \<open>
  Line 174 is \<open>return False, await response.error_message.get("name", "Unknown error")\<close>:
  the call of \<open>get\<close> binds tighter than \<open>await\<close>, so \<open>get\<close> is called on the attribute and its
  answer is awaited.
\<close>

definition rejected_result :: "response \<Rightarrow> py_error + bool \<times> string" where
  "rejected_result resp =
     (case attribute_get (error_message resp) ''name'' ''Unknown error'' of
        Inl err \<Rightarrow> Inl err
      | Inr v \<Rightarrow> (case await_str v of Inl err \<Rightarrow> Inl err | Inr name \<Rightarrow> Inr (False, name)))"

definition submit_refund :: "env \<Rightarrow> int \<Rightarrow> bool \<Rightarrow> bool \<Rightarrow> outcome" where
  "submit_refund e crowdloan_id wait_for_inclusion wait_for_finalization =
     (let resp = submit_extrinsic e wait_for_inclusion wait_for_finalization;
          sent = [Compose_call ''Crowdloan'' ''refund'' crowdloan_id,
                  Create_signed_extrinsic,
                  Submit_extrinsic wait_for_inclusion wait_for_finalization]
      in if \<not> wait_for_finalization \<and> \<not> wait_for_inclusion then
           (Inr (True, ''Refund transaction submitted.''),
            sent @ [Console_print Refund_submitted_text])
         else if \<not> is_success resp then
           (rejected_result resp,
            sent @ [Process_events, Is_success,
                    Print_error (Failed_to_refund_text (error_message resp)),
                    Error_message_get ''name'' ''Unknown error''])
         else
           (Inr (True, ''Refund completed successfully.''),
            sent @ [Process_events, Is_success,
                    Console_print (Refund_succeeded_text crowdloan_id),
                    Print_extrinsic_id]))"

subsection \<open>Confirmation and unlocking (lines 132 to 142)\<close>

text \<open>\<open>Confirm.ask\<close> is called only when \<open>prompt\<close> is true: \<open>and\<close> does not evaluate its
  second operand otherwise.\<close>

definition confirm_and_submit :: "env \<Rightarrow> int \<Rightarrow> bool \<Rightarrow> bool \<Rightarrow> bool \<Rightarrow> outcome" where
  "confirm_and_submit e crowdloan_id wait_for_inclusion wait_for_finalization prompt =
     (let asked = (if prompt then [Confirm_ask crowdloan_id] else [])
      in if prompt \<and> \<not> confirm_ask e then
           (Inr (False, ''Refund cancelled by user.''),
            asked @ [Console_print Refund_cancelled_text])
         else if \<not> success (unlock_key e) then
           (Inr (False, message (unlock_key e)),
            asked @ [Unlock_key, Print_error (Unlock_failed_text (message (unlock_key e)))])
         else
           (let (res, tr) = submit_refund e crowdloan_id wait_for_inclusion wait_for_finalization
            in (res, asked @ [Unlock_key] @ tr)))"

subsection \<open>The information shown before confirmation (lines 70 to 130)\<close>

definition refund_information :: "env \<Rightarrow> int \<Rightarrow> crowdloan \<Rightarrow> int \<Rightarrow> effect list" where
  "refund_information e crowdloan_id c current_block =
     (let refund_limit = get_constant e ''RefundContributorsLimit'';
          status = status_of current_block c;
          est = estimated_calls (contributors_count c) refund_limit;
          rows = [Row_crowdloan_id crowdloan_id,
                  Row_total_contributors (contributors_count c),
                  Row_refund_limit refund_limit,
                  Row_amount_to_refund (raised c - deposit c),
                  Row_status status]
                 @ (if est > 1 then [Row_estimated_calls est] else [])
      in [Show_crowdloan_details crowdloan_id,
          Get_constant ''RefundContributorsLimit'',
          Console_print Refund_information_header,
          Console_print (Info_table rows)]
         @ (if est > 1 then [Console_print (Calls_note refund_limit est)] else []))"

subsection \<open>The whole coroutine (lines 48 to 180)\<close>

definition refund_crowdloan :: "env \<Rightarrow> int \<Rightarrow> bool \<Rightarrow> bool \<Rightarrow> bool \<Rightarrow> outcome" where
  "refund_crowdloan e crowdloan_id wait_for_inclusion wait_for_finalization prompt =
     (let current_block = get_block_number e;
          fetched = [Gather_crowdloan_and_block crowdloan_id]
      in case get_single_crowdloan e crowdloan_id of
           None \<Rightarrow>
             (Inr (False, ''Crowdloan #'' @ str_int crowdloan_id @ '' not found.''),
              fetched @ [Print_error (Not_found_text crowdloan_id)])
         | Some c \<Rightarrow>
             if finalized c then
               (Inr (False, ''Crowdloan #'' @ str_int crowdloan_id @ '' is already finalized.''),
                fetched @ [Print_error (Already_finalized_text crowdloan_id)])
             else if end_block c > current_block then
               (Inr (False, ''Crowdloan #'' @ str_int crowdloan_id @ '' is not yet ended.''),
                fetched @ [Print_error (Not_yet_ended_text crowdloan_id (end_block c)
                                          (end_block c - current_block))])
             else
               (let (res, tr) = confirm_and_submit e crowdloan_id
                                  wait_for_inclusion wait_for_finalization prompt
                in (res, fetched @ refund_information e crowdloan_id c current_block @ tr)))"

text \<open>The pair returned to the caller, and the calls made on the way.\<close>

definition result :: "outcome \<Rightarrow> py_error + bool \<times> string" where
  "result out = fst out"

definition trace :: "outcome \<Rightarrow> effect list" where
  "trace out = snd out"

text \<open>The status strings shown in the tables of a trace.\<close>

fun row_statuses :: "row list \<Rightarrow> string list" where
  "row_statuses [] = []"
| "row_statuses (Row_status s # rs) = s # row_statuses rs"
| "row_statuses (_ # rs) = row_statuses rs"

fun shown_statuses :: "effect list \<Rightarrow> string list" where
  "shown_statuses [] = []"
| "shown_statuses (Console_print (Info_table rows) # es) = row_statuses rows @ shown_statuses es"
| "shown_statuses (_ # es) = shown_statuses es"

text \<open>The estimates shown in the tables of a trace.\<close>

fun row_estimates :: "row list \<Rightarrow> int list" where
  "row_estimates [] = []"
| "row_estimates (Row_estimated_calls k # rs) = k # row_estimates rs"
| "row_estimates (_ # rs) = row_estimates rs"

fun shown_estimates :: "effect list \<Rightarrow> int list" where
  "shown_estimates [] = []"
| "shown_estimates (Console_print (Info_table rows) # es) = row_estimates rows @ shown_estimates es"
| "shown_estimates (_ # es) = shown_estimates es"

text \<open>The calls that compose, sign, submit or follow up the refund extrinsic.\<close>

fun is_submission_call :: "effect \<Rightarrow> bool" where
  "is_submission_call (Compose_call _ _ _) = True"
| "is_submission_call Create_signed_extrinsic = True"
| "is_submission_call (Submit_extrinsic _ _) = True"
| "is_submission_call Process_events = True"
| "is_submission_call Is_success = True"
| "is_submission_call (Error_message_get _ _) = True"
| "is_submission_call Print_extrinsic_id = True"
| "is_submission_call _ = False"

subsection \<open>The scenarios of the specification\<close>

text \<open>
  Crowdloan 7 with end block 100 and 250 contributors, short of its cap and not finalized;
  the chain at a given block, with a given refund limit; the other collaborators as given.
  Every other crowdloan id resolves to nothing.
\<close>

definition crowdloan_7 :: crowdloan where
  "crowdloan_7 =
     \<lparr>end_block = 100, cap = 1000, raised = 400, deposit = 10,
      contributors_count = 250, finalized = False\<rparr>"

definition scenario :: "crowdloan \<Rightarrow> int \<Rightarrow> int \<Rightarrow> bool \<Rightarrow> unlock_status \<Rightarrow> response \<Rightarrow> env" where
  "scenario c current_block refund_limit answer unlocked resp =
     \<lparr>get_single_crowdloan = (\<lambda>i. if i = 7 then Some c else None),
      get_block_number = current_block,
      get_constant = (\<lambda>name. if name = ''RefundContributorsLimit'' then refund_limit else 0),
      confirm_ask = answer,
      unlock_key = unlocked,
      submit_extrinsic = (\<lambda>wait_for_inclusion wait_for_finalization. resp)\<rparr>"

definition unlock_ok :: unlock_status where
  "unlock_ok = \<lparr>success = True, message = ''Unlocked''\<rparr>"

definition unlock_refused :: unlock_status where
  "unlock_refused = \<lparr>success = False, message = ''Incorrect password''\<rparr>"

definition receipt_ok :: response where
  "receipt_ok = \<lparr>is_success = True, error_message = Awaitable_dict []\<rparr>"

definition receipt_insufficient_funds :: response where
  "receipt_insufficient_funds =
     \<lparr>is_success = False,
      error_message = Awaitable_dict [(''type'', ''Module''), (''name'', ''InsufficientFunds'')]\<rparr>"

definition receipt_plain_dict :: response where
  "receipt_plain_dict =
     \<lparr>is_success = False,
      error_message = Plain_dict [(''type'', ''Module''), (''name'', ''InsufficientFunds'')]\<rparr>"

section \<open>Properties\<close>

subsection \<open>Arithmetic of the estimate\<close>

lemma estimated_calls_pos:
  assumes "0 < l"
  shows "estimated_calls cc l = max 0 cc div l + 1"
proof -
  have "l \<noteq> 0" using assms by simp
  then have "(max 0 cc + l) div l = max 0 cc div l + 1" by (rule div_add_self2)
  then show ?thesis using assms by (simp add: estimated_calls_def Let_def)
qed

lemma estimated_calls_nonpos: "l \<le> 0 \<Longrightarrow> estimated_calls cc l = 0"
  by (simp add: estimated_calls_def Let_def)

lemma div_succ_above:
  fixes c l :: int
  assumes "0 < l"
  shows "c < (c div l + 1) * l"
proof -
  have "c mod l < l" using assms by simp
  moreover have "c = c div l * l + c mod l" by simp
  ultimately have "c < c div l * l + l" by linarith
  then show ?thesis by (simp add: distrib_right)
qed

lemma div_succ_least:
  fixes c l k :: int
  assumes "0 < l" and "c < k * l"
  shows "c div l + 1 \<le> k"
proof (rule ccontr)
  assume "\<not> c div l + 1 \<le> k"
  then have "k \<le> c div l" by simp
  then have "k * l \<le> c div l * l" using assms(1) by (simp add: mult_right_mono)
  moreover have "0 \<le> c mod l" using assms(1) by simp
  moreover have "c = c div l * l + c mod l" by simp
  ultimately show False using assms(2) by linarith
qed

subsection \<open>Strings\<close>

lemma str_int_7: "str_int 7 = ''7''"
  by (simp add: str_int_def str_nat.simps digit_char_def)

lemma statuses_distinct:
  "status_failed \<noteq> status_ended" "status_failed \<noteq> status_active" "status_ended \<noteq> status_active"
  by (simp_all add: status_failed_def status_ended_def status_active_def)

subsection \<open>The phases of a run\<close>

lemma shown_statuses_append:
  "shown_statuses (xs @ ys) = shown_statuses xs @ shown_statuses ys"
  by (induction xs rule: shown_statuses.induct) simp_all

lemma refund_crowdloan_eligible:
  assumes "get_single_crowdloan e i = Some c" and "\<not> finalized c"
    and "end_block c \<le> get_block_number e"
  shows "refund_crowdloan e i winc wfin p =
           (fst (confirm_and_submit e i winc wfin p),
            Gather_crowdloan_and_block i # refund_information e i c (get_block_number e)
              @ snd (confirm_and_submit e i winc wfin p))"
  using assms by (simp add: refund_crowdloan_def Let_def case_prod_beta)

lemma refund_information_statuses:
  "shown_statuses (refund_information e i c b) = [status_of b c]"
  by (simp add: refund_information_def Let_def)

lemma refund_information_no_submission:
  "filter is_submission_call (refund_information e i c b) = []"
  by (simp add: refund_information_def Let_def)

lemma submit_refund_statuses: "shown_statuses (snd (submit_refund e i winc wfin)) = []"
  by (simp add: submit_refund_def Let_def)

lemma confirm_and_submit_statuses:
  "shown_statuses (snd (confirm_and_submit e i winc wfin p)) = []"
  by (simp add: confirm_and_submit_def Let_def case_prod_beta shown_statuses_append
      submit_refund_statuses)

lemma confirm_and_submit_unlock_failed:
  assumes "p \<longrightarrow> confirm_ask e" and "\<not> success (unlock_key e)"
  shows "confirm_and_submit e i winc wfin p =
           (Inr (False, message (unlock_key e)),
            (if p then [Confirm_ask i] else [])
              @ [Unlock_key, Print_error (Unlock_failed_text (message (unlock_key e)))])"
  using assms by (simp add: confirm_and_submit_def Let_def)

lemma confirm_and_submit_unlocked:
  assumes "p \<longrightarrow> confirm_ask e" and "success (unlock_key e)"
  shows "confirm_and_submit e i winc wfin p =
           (fst (submit_refund e i winc wfin),
            (if p then [Confirm_ask i] else []) @ Unlock_key # snd (submit_refund e i winc wfin))"
  using assms by (simp add: confirm_and_submit_def Let_def case_prod_beta)

lemma submit_refund_no_wait:
  "submit_refund e i False False =
     (Inr (True, ''Refund transaction submitted.''),
      [Compose_call ''Crowdloan'' ''refund'' i, Create_signed_extrinsic,
       Submit_extrinsic False False, Console_print Refund_submitted_text])"
  by (simp add: submit_refund_def Let_def)

lemma rejected_result_raises:
  "rejected_result resp =
     Inl (case error_message resp of
            Awaitable_dict d \<Rightarrow> AttributeError
          | Plain_dict d \<Rightarrow> TypeError)"
  by (cases "error_message resp") (simp_all add: rejected_result_def await_str_def)

lemma submit_refund_failed:
  assumes "winc \<or> wfin" and "\<not> is_success (submit_extrinsic e winc wfin)"
  shows "fst (submit_refund e i winc wfin) = rejected_result (submit_extrinsic e winc wfin)"
  using assms by (auto simp add: submit_refund_def Let_def)

lemma shown_estimates_append:
  "shown_estimates (xs @ ys) = shown_estimates xs @ shown_estimates ys"
  by (induction xs rule: shown_estimates.induct) simp_all

lemma refund_information_estimates:
  "shown_estimates (refund_information e i c b) =
     (let k = estimated_calls (contributors_count c) (get_constant e ''RefundContributorsLimit'')
      in if 1 < k then [k] else [])"
  by (simp add: refund_information_def Let_def)

lemma submit_refund_estimates: "shown_estimates (snd (submit_refund e i winc wfin)) = []"
  by (simp add: submit_refund_def Let_def)

lemma confirm_and_submit_estimates:
  "shown_estimates (snd (confirm_and_submit e i winc wfin p)) = []"
  by (simp add: confirm_and_submit_def Let_def case_prod_beta shown_estimates_append
      submit_refund_estimates)

lemma refund_crowdloan_statuses:
  "shown_statuses (trace (refund_crowdloan e i winc wfin p)) =
     (case get_single_crowdloan e i of
        None \<Rightarrow> []
      | Some c \<Rightarrow>
          if finalized c \<or> get_block_number e < end_block c then []
          else [status_of (get_block_number e) c])"
  by (simp add: refund_crowdloan_def trace_def Let_def case_prod_beta shown_statuses_append
      refund_information_statuses confirm_and_submit_statuses split: option.split)

lemma status_of_active_iff: "status_of b c = status_active \<longleftrightarrow> b < end_block c"
  using statuses_distinct by (auto simp add: status_of_def)

lemma refund_information_members:
  "Process_events \<notin> set (refund_information e i c b)"
  "Is_success \<notin> set (refund_information e i c b)"
  by (simp_all add: refund_information_def Let_def)

lemma refund_information_submit_extrinsic:
  "refund_information (e\<lparr>submit_extrinsic := r\<rparr>) i c b = refund_information e i c b"
  by (simp add: refund_information_def)

subsection \<open>The eligibility gate\<close>

text \<open>
  Claim C5. When the crowdloan resolves and is finalized, the run stops at the gate,
  whatever the current block is: it returns \<open>False\<close> with the message
  "Crowdloan #<id> is already finalized.", having only fetched the crowdloan with the
  block and printed the error. For crowdloan 7 the message is
  "Crowdloan #7 is already finalized.".
\<close>

theorem refund_finalized_crowdloan:
  assumes "get_single_crowdloan e i = Some c" and "finalized c"
  shows "refund_crowdloan e i winc wfin p =
           (Inr (False, ''Crowdloan #'' @ str_int i @ '' is already finalized.''),
            [Gather_crowdloan_and_block i, Print_error (Already_finalized_text i)])
         \<and> (i = 7 \<longrightarrow> result (refund_crowdloan e i winc wfin p) =
                          Inr (False, ''Crowdloan #7 is already finalized.''))"
proof -
  have run: "refund_crowdloan e i winc wfin p =
          (Inr (False, ''Crowdloan #'' @ str_int i @ '' is already finalized.''),
           [Gather_crowdloan_and_block i, Print_error (Already_finalized_text i)])"
    using assms by (simp add: refund_crowdloan_def Let_def)
  have "result (refund_crowdloan e i winc wfin p) = Inr (False, ''Crowdloan #7 is already finalized.'')"
    if "i = 7"
    unfolding run result_def using that by (simp add: str_int_7)
  with run show ?thesis by blast
qed

text \<open>Scenario B: crowdloan 7, finalized.\<close>

theorem refund_finalized_crowdloan_witness:
  "get_single_crowdloan (scenario (crowdloan_7\<lparr>finalized := True\<rparr>) 50 100 True unlock_ok receipt_ok) 7
     = Some (crowdloan_7\<lparr>finalized := True\<rparr>)
   \<and> finalized (crowdloan_7\<lparr>finalized := True\<rparr>)
   \<and> result (refund_crowdloan (scenario (crowdloan_7\<lparr>finalized := True\<rparr>) 50 100 True unlock_ok receipt_ok)
         7 True False True) = Inr (False, ''Crowdloan #7 is already finalized.'')"
proof -
  let ?c = "crowdloan_7\<lparr>finalized := True\<rparr>"
  let ?e = "scenario ?c 50 100 True unlock_ok receipt_ok"
  have found: "get_single_crowdloan ?e 7 = Some ?c" by (simp add: scenario_def)
  have fin: "finalized ?c" by simp
  from refund_finalized_crowdloan [OF found fin, of True False True]
  have "result (refund_crowdloan ?e 7 True False True) = Inr (False, ''Crowdloan #7 is already finalized.'')"
    by blast
  with found fin show ?thesis by blast
qed

text \<open>
  Claim C6. When the crowdloan resolves, is not finalized and ends after the current
  block, the run returns \<open>False\<close> with the message "Crowdloan #<id> is not yet ended.", and
  the block count handed to \<open>blocks_to_duration\<close> for the remaining time is
  \<open>end - current_block\<close>. For crowdloan 7 the message is "Crowdloan #7 is not yet ended.".
\<close>

theorem refund_not_yet_ended:
  assumes "get_single_crowdloan e i = Some c" and "\<not> finalized c"
    and "end_block c > get_block_number e"
  shows "refund_crowdloan e i winc wfin p =
           (Inr (False, ''Crowdloan #'' @ str_int i @ '' is not yet ended.''),
            [Gather_crowdloan_and_block i,
             Print_error (Not_yet_ended_text i (end_block c) (end_block c - get_block_number e))])
         \<and> (i = 7 \<longrightarrow> result (refund_crowdloan e i winc wfin p) =
                          Inr (False, ''Crowdloan #7 is not yet ended.''))"
proof -
  have run: "refund_crowdloan e i winc wfin p =
          (Inr (False, ''Crowdloan #'' @ str_int i @ '' is not yet ended.''),
           [Gather_crowdloan_and_block i,
            Print_error (Not_yet_ended_text i (end_block c) (end_block c - get_block_number e))])"
    using assms by (simp add: refund_crowdloan_def Let_def)
  have "result (refund_crowdloan e i winc wfin p) = Inr (False, ''Crowdloan #7 is not yet ended.'')"
    if "i = 7"
    unfolding run result_def using that by (simp add: str_int_7)
  with run show ?thesis by blast
qed

text \<open>Scenario A: crowdloan 7 with end block 100, the chain at block 50.\<close>

theorem refund_not_yet_ended_witness:
  "get_single_crowdloan (scenario crowdloan_7 50 100 True unlock_ok receipt_ok) 7 = Some crowdloan_7
   \<and> \<not> finalized crowdloan_7
   \<and> end_block crowdloan_7 > get_block_number (scenario crowdloan_7 50 100 True unlock_ok receipt_ok)
   \<and> refund_crowdloan (scenario crowdloan_7 50 100 True unlock_ok receipt_ok) 7 True False True
       = (Inr (False, ''Crowdloan #7 is not yet ended.''),
          [Gather_crowdloan_and_block 7, Print_error (Not_yet_ended_text 7 100 50)])"
proof -
  let ?e = "scenario crowdloan_7 50 100 True unlock_ok receipt_ok"
  have found: "get_single_crowdloan ?e 7 = Some crowdloan_7" by (simp add: scenario_def)
  have open_: "\<not> finalized crowdloan_7" by (simp add: crowdloan_7_def)
  have early: "end_block crowdloan_7 > get_block_number ?e"
    by (simp add: scenario_def crowdloan_7_def)
  have blk: "get_block_number ?e = 50" "end_block crowdloan_7 = 100"
    by (simp_all add: scenario_def crowdloan_7_def)
  have msg: "''Crowdloan #'' @ str_int 7 @ '' is not yet ended.'' = ''Crowdloan #7 is not yet ended.''"
    by (simp add: str_int_7)
  from refund_not_yet_ended [OF found open_ early, of True False True]
  have "refund_crowdloan ?e 7 True False True
       = (Inr (False, ''Crowdloan #7 is not yet ended.''),
          [Gather_crowdloan_and_block 7, Print_error (Not_yet_ended_text 7 100 50)])"
    unfolding blk msg by simp
  with found open_ early show ?thesis by blast
qed

text \<open>
  Claim C7. When the crowdloan resolves, is not finalized and its end block is not after
  the current block, the run passes the gate: the details are shown and the outcome is the
  one of the confirmation and submission phase. The one status shown is the "Failed (Cap
  not reached)" string if and only if \<open>raised < cap\<close>, and the "Ended but not finalized"
  string otherwise; the two strings differ.
\<close>

theorem refund_status_after_end:
  assumes "get_single_crowdloan e i = Some c" and "\<not> finalized c"
    and "end_block c \<le> get_block_number e"
  shows "Show_crowdloan_details i \<in> set (trace (refund_crowdloan e i winc wfin p))
         \<and> result (refund_crowdloan e i winc wfin p) = fst (confirm_and_submit e i winc wfin p)
         \<and> shown_statuses (trace (refund_crowdloan e i winc wfin p)) =
             [if raised c < cap c then status_failed else status_ended]
         \<and> status_failed \<noteq> status_ended"
proof -
  have run: "refund_crowdloan e i winc wfin p =
           (fst (confirm_and_submit e i winc wfin p),
            Gather_crowdloan_and_block i # refund_information e i c (get_block_number e)
              @ snd (confirm_and_submit e i winc wfin p))"
    using assms by (rule refund_crowdloan_eligible)
  have shown: "Show_crowdloan_details i \<in> set (trace (refund_crowdloan e i winc wfin p))"
    unfolding run trace_def by (simp add: refund_information_def Let_def)
  have res: "result (refund_crowdloan e i winc wfin p) = fst (confirm_and_submit e i winc wfin p)"
    unfolding run result_def by simp
  have "shown_statuses (trace (refund_crowdloan e i winc wfin p)) = [status_of (get_block_number e) c]"
    using assms by (simp add: refund_crowdloan_statuses)
  then have st: "shown_statuses (trace (refund_crowdloan e i winc wfin p)) =
             [if raised c < cap c then status_failed else status_ended]"
    using assms(3) by (simp add: status_of_def)
  from shown res st statuses_distinct(1) show ?thesis by blast
qed

text \<open>Crowdloan 7 past its end: short of the cap, and with the cap reached.\<close>

theorem refund_status_after_end_witness:
  "get_single_crowdloan (scenario crowdloan_7 150 100 False unlock_ok receipt_ok) 7 = Some crowdloan_7
   \<and> \<not> finalized crowdloan_7
   \<and> end_block crowdloan_7 \<le> get_block_number (scenario crowdloan_7 150 100 False unlock_ok receipt_ok)
   \<and> raised crowdloan_7 < cap crowdloan_7
   \<and> shown_statuses (trace (refund_crowdloan
         (scenario crowdloan_7 150 100 False unlock_ok receipt_ok) 7 True False True)) = [status_failed]
   \<and> get_single_crowdloan (scenario (crowdloan_7\<lparr>raised := 1000\<rparr>) 100 100 False unlock_ok receipt_ok) 7
        = Some (crowdloan_7\<lparr>raised := 1000\<rparr>)
   \<and> \<not> finalized (crowdloan_7\<lparr>raised := 1000\<rparr>)
   \<and> end_block (crowdloan_7\<lparr>raised := 1000\<rparr>)
        \<le> get_block_number (scenario (crowdloan_7\<lparr>raised := 1000\<rparr>) 100 100 False unlock_ok receipt_ok)
   \<and> \<not> raised (crowdloan_7\<lparr>raised := 1000\<rparr>) < cap (crowdloan_7\<lparr>raised := 1000\<rparr>)
   \<and> shown_statuses (trace (refund_crowdloan
         (scenario (crowdloan_7\<lparr>raised := 1000\<rparr>) 100 100 False unlock_ok receipt_ok) 7 True False True))
        = [status_ended]"
proof -
  let ?e = "scenario crowdloan_7 150 100 False unlock_ok receipt_ok"
  let ?c' = "crowdloan_7\<lparr>raised := 1000\<rparr>"
  let ?e' = "scenario ?c' 100 100 False unlock_ok receipt_ok"
  have a: "get_single_crowdloan ?e 7 = Some crowdloan_7" "\<not> finalized crowdloan_7"
    "end_block crowdloan_7 \<le> get_block_number ?e" "raised crowdloan_7 < cap crowdloan_7"
    by (simp_all add: scenario_def crowdloan_7_def)
  have b: "get_single_crowdloan ?e' 7 = Some ?c'" "\<not> finalized ?c'"
    "end_block ?c' \<le> get_block_number ?e'" "\<not> raised ?c' < cap ?c'"
    by (simp_all add: scenario_def crowdloan_7_def)
  from refund_status_after_end [OF a(1-3), of True False True] a(4)
  have s: "shown_statuses (trace (refund_crowdloan ?e 7 True False True)) = [status_failed]"
    by simp
  from refund_status_after_end [OF b(1-3), of True False True] b(4)
  have s': "shown_statuses (trace (refund_crowdloan ?e' 7 True False True)) = [status_ended]"
    by simp
  from a b s s' show ?thesis by blast
qed

text \<open>
  Claim C8. A status that a run shows was classified after the gate, for a resolved,
  non-finalized crowdloan whose end block is not after the current block; so it is never
  the "Active" string, although \<open>status_of\<close> returns that string for every earlier block
  (\<open>status_of_active_iff\<close>).
\<close>

theorem refund_status_never_active:
  assumes "s \<in> set (shown_statuses (trace (refund_crowdloan e i winc wfin p)))"
  shows "(\<exists>c. get_single_crowdloan e i = Some c \<and> \<not> finalized c
              \<and> end_block c \<le> get_block_number e
              \<and> s = status_of (get_block_number e) c)
         \<and> s \<noteq> status_active"
proof (cases "get_single_crowdloan e i")
  case None
  with assms show ?thesis by (simp add: refund_crowdloan_statuses)
next
  case (Some c)
  with assms have gate: "\<not> finalized c" "end_block c \<le> get_block_number e"
    and s: "s = status_of (get_block_number e) c"
    by (simp_all add: refund_crowdloan_statuses split: if_splits)
  from gate(2) s have "s \<noteq> status_active" by (simp add: status_of_active_iff)
  with Some gate s show ?thesis by blast
qed

theorem refund_status_never_active_witness:
  "status_failed \<in> set (shown_statuses (trace (refund_crowdloan
       (scenario crowdloan_7 150 100 False unlock_ok receipt_ok) 7 True False True)))
   \<and> end_block crowdloan_7 \<le> get_block_number (scenario crowdloan_7 150 100 False unlock_ok receipt_ok)
   \<and> status_failed \<noteq> status_active"
proof -
  let ?e = "scenario crowdloan_7 150 100 False unlock_ok receipt_ok"
  have blk: "end_block crowdloan_7 \<le> get_block_number ?e"
    by (simp add: scenario_def crowdloan_7_def)
  have "shown_statuses (trace (refund_crowdloan ?e 7 True False True)) = [status_failed]"
    by (simp add: refund_crowdloan_statuses scenario_def crowdloan_7_def status_of_def)
  then have mem: "status_failed \<in> set (shown_statuses (trace (refund_crowdloan ?e 7 True False True)))"
    by simp
  from refund_status_never_active [OF mem] have "status_failed \<noteq> status_active" by blast
  with mem blk show ?thesis by blast
qed

subsection \<open>The batching estimate\<close>

text \<open>
  Claim C2. For a contributor count \<open>cc \<ge> 0\<close> the estimate is \<open>(cc + l) // l\<close> when the
  refund limit \<open>l\<close> is positive and \<open>0\<close> otherwise; a run that passes the gate shows this
  number in its table exactly when it exceeds 1. For 250 contributors and a limit of 100
  the estimate is 3.
\<close>

theorem estimated_calls_formula:
  assumes "0 \<le> cc"
  shows "estimated_calls cc l = (if 0 < l then (cc + l) div l else 0)
         \<and> (get_single_crowdloan e i = Some c \<and> \<not> finalized c
              \<and> end_block c \<le> get_block_number e \<and> contributors_count c = cc
              \<and> get_constant e ''RefundContributorsLimit'' = l
            \<longrightarrow> shown_estimates (trace (refund_crowdloan e i winc wfin p)) =
                  (if 0 < l \<and> 1 < (cc + l) div l then [(cc + l) div l] else []))"
proof -
  have formula: "estimated_calls cc l = (if 0 < l then (cc + l) div l else 0)"
    using assms by (simp add: estimated_calls_def Let_def)
  have "shown_estimates (trace (refund_crowdloan e i winc wfin p)) =
          (if 0 < l \<and> 1 < (cc + l) div l then [(cc + l) div l] else [])"
    if "get_single_crowdloan e i = Some c" and "\<not> finalized c"
      and "end_block c \<le> get_block_number e" and "contributors_count c = cc"
      and "get_constant e ''RefundContributorsLimit'' = l"
  proof -
    have "shown_estimates (trace (refund_crowdloan e i winc wfin p)) =
            shown_estimates (refund_information e i c (get_block_number e))"
      using that(1-3)
      by (simp add: refund_crowdloan_eligible trace_def shown_estimates_append
          confirm_and_submit_estimates)
    also have "\<dots> = (if 1 < estimated_calls cc l then [estimated_calls cc l] else [])"
      using that(4,5) by (simp add: refund_information_estimates Let_def)
    also have "\<dots> = (if 0 < l \<and> 1 < (cc + l) div l then [(cc + l) div l] else [])"
      by (simp add: formula)
    finally show ?thesis .
  qed
  with formula show ?thesis by blast
qed

text \<open>Scenario D: 250 contributors, a limit of 100, the user declines.\<close>

theorem estimated_calls_formula_witness:
  "(0::int) \<le> 250 \<and> estimated_calls 250 100 = 3
   \<and> get_single_crowdloan (scenario crowdloan_7 150 100 False unlock_ok receipt_ok) 7 = Some crowdloan_7
   \<and> \<not> finalized crowdloan_7
   \<and> end_block crowdloan_7 \<le> get_block_number (scenario crowdloan_7 150 100 False unlock_ok receipt_ok)
   \<and> contributors_count crowdloan_7 = 250
   \<and> get_constant (scenario crowdloan_7 150 100 False unlock_ok receipt_ok) ''RefundContributorsLimit'' = 100
   \<and> shown_estimates (trace (refund_crowdloan
         (scenario crowdloan_7 150 100 False unlock_ok receipt_ok) 7 True False True)) = [3]"
proof -
  let ?e = "scenario crowdloan_7 150 100 False unlock_ok receipt_ok"
  have pre: "get_single_crowdloan ?e 7 = Some crowdloan_7 \<and> \<not> finalized crowdloan_7
      \<and> end_block crowdloan_7 \<le> get_block_number ?e \<and> contributors_count crowdloan_7 = 250
      \<and> get_constant ?e ''RefundContributorsLimit'' = 100"
    by (simp add: scenario_def crowdloan_7_def)
  have nonneg: "(0::int) \<le> 250" by simp
  have arith: "((250::int) + 100) div 100 = 3" by simp
  from estimated_calls_formula [OF nonneg, of 100 ?e 7 crowdloan_7 True False True] pre
  have "estimated_calls 250 100 = 3
      \<and> shown_estimates (trace (refund_crowdloan ?e 7 True False True)) = [3]"
    unfolding arith by simp
  with pre nonneg show ?thesis by blast
qed

text \<open>
  Claim C10. For a positive refund limit \<open>l\<close> and any integer contributor count \<open>cc\<close> the
  estimate is \<open>max(0, cc) // l + 1\<close>; it is at least 1, it is 1 for no contributors, and a
  negative count gives the estimate of the count clamped to 0.
\<close>

theorem estimated_calls_at_least_one:
  assumes "0 < l"
  shows "estimated_calls cc l = max 0 cc div l + 1
         \<and> 1 \<le> estimated_calls cc l
         \<and> estimated_calls 0 l = 1
         \<and> estimated_calls cc l = estimated_calls (max 0 cc) l"
proof -
  have eq: "estimated_calls cc l = max 0 cc div l + 1"
    using assms by (rule estimated_calls_pos)
  have "0 \<le> max 0 cc div l"
    using assms by (simp add: pos_imp_zdiv_nonneg_iff)
  then have ge: "1 \<le> estimated_calls cc l" using eq by simp
  have zero: "estimated_calls 0 l = 1"
    using assms by (simp add: estimated_calls_pos)
  have clamp: "estimated_calls cc l = estimated_calls (max 0 cc) l"
    by (simp add: estimated_calls_def Let_def)
  from eq ge zero clamp show ?thesis by blast
qed

theorem estimated_calls_at_least_one_witness:
  "(0::int) < 100 \<and> estimated_calls 0 100 = 1 \<and> estimated_calls (-5) 100 = 1
   \<and> estimated_calls 250 100 = 3 \<and> 1 \<le> estimated_calls 99 100"
  using estimated_calls_at_least_one [of 100 0] estimated_calls_at_least_one [of 100 "-5"] estimated_calls_at_least_one [of 100 250] estimated_calls_at_least_one [of 100 99]
  by simp

text \<open>
  Claim C1, as stated: the estimate is the smallest \<open>k\<close> with \<open>k * l \<ge> cc\<close>, so that no
  contributors give 0 and a count equal to the limit gives 1. With a limit of 5 the
  estimate for no contributors is not 0, and the estimate for 5 contributors is not 1
  although \<open>1 * 5 \<ge> 5\<close>.
\<close>

theorem estimated_calls_not_least_counterexample:
  "estimated_calls 0 5 \<noteq> 0 \<and> estimated_calls 5 5 \<noteq> 1
   \<and> (1::int) * 5 \<ge> 5 \<and> 1 < estimated_calls 5 5"
  by (simp add: estimated_calls_def Let_def)

text \<open>
  Claim C1, amended. For \<open>cc \<ge> 0\<close> the estimate is 0 when the limit \<open>l\<close> is not positive,
  and otherwise the smallest integer \<open>k\<close> with \<open>k * l > cc\<close>: no contributors give 1, a count
  equal to the limit gives 2, and a count of the limit plus one gives 2 when the limit
  exceeds 1.
\<close>

theorem estimated_calls_least_strictly_above:
  assumes "0 \<le> cc"
  shows "(l \<le> 0 \<longrightarrow> estimated_calls cc l = 0)
         \<and> (0 < l \<longrightarrow> cc < estimated_calls cc l * l
                        \<and> (\<forall>k. cc < k * l \<longrightarrow> estimated_calls cc l \<le> k))
         \<and> (0 < l \<longrightarrow> estimated_calls 0 l = 1 \<and> estimated_calls l l = 2)
         \<and> (1 < l \<longrightarrow> estimated_calls (l + 1) l = 2)"
proof -
  have nonpos: "estimated_calls cc l = 0" if "l \<le> 0"
    using that by (rule estimated_calls_nonpos)
  have above: "cc < estimated_calls cc l * l" if "0 < l"
    using that assms div_succ_above [of l cc] by (simp add: estimated_calls_pos)
  have least: "estimated_calls cc l \<le> k" if "0 < l" and "cc < k * l" for k
    using that assms div_succ_least [of l cc k] by (simp add: estimated_calls_pos)
  have zero: "estimated_calls 0 l = 1" if "0 < l"
    using that by (simp add: estimated_calls_pos)
  have full: "estimated_calls l l = 2" if "0 < l"
    using that by (simp add: estimated_calls_pos)
  have one_more: "estimated_calls (l + 1) l = 2" if "1 < l"
  proof -
    have "l \<noteq> 0" using that by simp
    then have "(l + 1) div l = 1 div l + 1" by (rule div_add_self1)
    moreover have "1 div l = 0" using that by (simp add: div_pos_pos_trivial)
    ultimately have "(l + 1) div l = 1" by simp
    then show ?thesis using that by (simp add: estimated_calls_pos)
  qed
  from nonpos above least zero full one_more show ?thesis by blast
qed

theorem estimated_calls_least_strictly_above_witness:
  "(0::int) \<le> 200 \<and> (0::int) < 100 \<and> 200 < estimated_calls 200 100 * 100
   \<and> 200 < (3::int) * 100 \<and> estimated_calls 200 100 \<le> 3
   \<and> estimated_calls 0 100 = 1 \<and> estimated_calls 100 100 = 2
   \<and> estimated_calls (100 + 1) 100 = 2 \<and> (-1::int) \<le> 0 \<and> estimated_calls 200 (-1) = 0"
  using estimated_calls_least_strictly_above [of 200 100] estimated_calls_least_strictly_above [of 200 "-1"] by simp

subsection \<open>Unlocking and submission\<close>

text \<open>
  Claim C9. When the run passes the gate, the confirmation is given (or not asked for) and
  the wallet does not unlock, the run returns \<open>False\<close> with the message of the unlock
  status. After the unlock it only prints that message: the trace holds no call that
  composes, signs or submits the refund extrinsic, or that reads its receipt.
\<close>

theorem refund_unlock_failed:
  assumes "get_single_crowdloan e i = Some c" and "\<not> finalized c"
    and "end_block c \<le> get_block_number e"
    and "p \<longrightarrow> confirm_ask e" and "\<not> success (unlock_key e)"
  shows "result (refund_crowdloan e i winc wfin p) = Inr (False, message (unlock_key e))
         \<and> trace (refund_crowdloan e i winc wfin p) =
             Gather_crowdloan_and_block i # refund_information e i c (get_block_number e)
               @ (if p then [Confirm_ask i] else [])
               @ [Unlock_key, Print_error (Unlock_failed_text (message (unlock_key e)))]
         \<and> filter is_submission_call (trace (refund_crowdloan e i winc wfin p)) = []"
proof -
  have run: "refund_crowdloan e i winc wfin p =
      (Inr (False, message (unlock_key e)),
       Gather_crowdloan_and_block i # refund_information e i c (get_block_number e)
         @ (if p then [Confirm_ask i] else [])
         @ [Unlock_key, Print_error (Unlock_failed_text (message (unlock_key e)))])"
    using assms by (simp add: refund_crowdloan_eligible confirm_and_submit_unlock_failed)
  have res: "result (refund_crowdloan e i winc wfin p) = Inr (False, message (unlock_key e))"
    unfolding run result_def by simp
  have tr: "trace (refund_crowdloan e i winc wfin p) =
             Gather_crowdloan_and_block i # refund_information e i c (get_block_number e)
               @ (if p then [Confirm_ask i] else [])
               @ [Unlock_key, Print_error (Unlock_failed_text (message (unlock_key e)))]"
    unfolding run trace_def by simp
  have none: "filter is_submission_call (trace (refund_crowdloan e i winc wfin p)) = []"
    unfolding tr by (simp add: refund_information_no_submission)
  from res tr none show ?thesis by blast
qed

theorem refund_unlock_failed_witness:
  "get_single_crowdloan (scenario crowdloan_7 150 100 True unlock_refused receipt_ok) 7 = Some crowdloan_7
   \<and> \<not> finalized crowdloan_7
   \<and> end_block crowdloan_7 \<le> get_block_number (scenario crowdloan_7 150 100 True unlock_refused receipt_ok)
   \<and> confirm_ask (scenario crowdloan_7 150 100 True unlock_refused receipt_ok)
   \<and> \<not> success (unlock_key (scenario crowdloan_7 150 100 True unlock_refused receipt_ok))
   \<and> result (refund_crowdloan (scenario crowdloan_7 150 100 True unlock_refused receipt_ok)
         7 True False True) = Inr (False, ''Incorrect password'')
   \<and> filter is_submission_call (trace (refund_crowdloan
         (scenario crowdloan_7 150 100 True unlock_refused receipt_ok) 7 True False True)) = []"
proof -
  let ?e = "scenario crowdloan_7 150 100 True unlock_refused receipt_ok"
  have a: "get_single_crowdloan ?e 7 = Some crowdloan_7" "\<not> finalized crowdloan_7"
    "end_block crowdloan_7 \<le> get_block_number ?e" "True \<longrightarrow> confirm_ask ?e"
    "\<not> success (unlock_key ?e)"
    by (simp_all add: scenario_def crowdloan_7_def unlock_refused_def)
  have m: "message (unlock_key ?e) = ''Incorrect password''"
    by (simp add: scenario_def unlock_refused_def)
  from refund_unlock_failed [OF a, of True False]
  have "result (refund_crowdloan ?e 7 True False True) = Inr (False, ''Incorrect password'')
      \<and> filter is_submission_call (trace (refund_crowdloan ?e 7 True False True)) = []"
    unfolding m by blast
  with a show ?thesis by blast
qed

text \<open>
  Claim C4. When the run passes the gate, the confirmation is given (or not asked for),
  the wallet unlocks and neither inclusion nor finalization is waited for, the run returns
  \<open>True\<close> with "Refund transaction submitted." right after the submission: the trace ends
  with the submission and the printed message, the receipt's events and success flag are
  not read, and the outcome does not depend on the receipt.
\<close>

theorem refund_submitted_without_wait:
  assumes "get_single_crowdloan e i = Some c" and "\<not> finalized c"
    and "end_block c \<le> get_block_number e"
    and "p \<longrightarrow> confirm_ask e" and "success (unlock_key e)"
  shows "result (refund_crowdloan e i False False p) = Inr (True, ''Refund transaction submitted.'')
         \<and> trace (refund_crowdloan e i False False p) =
             Gather_crowdloan_and_block i # refund_information e i c (get_block_number e)
               @ (if p then [Confirm_ask i] else [])
               @ [Unlock_key, Compose_call ''Crowdloan'' ''refund'' i, Create_signed_extrinsic,
                  Submit_extrinsic False False, Console_print Refund_submitted_text]
         \<and> Process_events \<notin> set (trace (refund_crowdloan e i False False p))
         \<and> Is_success \<notin> set (trace (refund_crowdloan e i False False p))
         \<and> refund_crowdloan (e\<lparr>submit_extrinsic := r\<rparr>) i False False p
             = refund_crowdloan e i False False p"
proof -
  have run: "refund_crowdloan e' i False False p =
      (Inr (True, ''Refund transaction submitted.''),
       Gather_crowdloan_and_block i # refund_information e' i c (get_block_number e')
         @ (if p then [Confirm_ask i] else [])
         @ [Unlock_key, Compose_call ''Crowdloan'' ''refund'' i, Create_signed_extrinsic,
            Submit_extrinsic False False, Console_print Refund_submitted_text])"
    if "get_single_crowdloan e' i = Some c" and "end_block c \<le> get_block_number e'"
      and "p \<longrightarrow> confirm_ask e'" and "success (unlock_key e')" for e'
    using that assms(2)
    by (simp add: refund_crowdloan_eligible confirm_and_submit_unlocked submit_refund_no_wait)
  have here: "refund_crowdloan e i False False p =
      (Inr (True, ''Refund transaction submitted.''),
       Gather_crowdloan_and_block i # refund_information e i c (get_block_number e)
         @ (if p then [Confirm_ask i] else [])
         @ [Unlock_key, Compose_call ''Crowdloan'' ''refund'' i, Create_signed_extrinsic,
            Submit_extrinsic False False, Console_print Refund_submitted_text])"
    using assms(1,3,4,5) by (rule run)
  have res: "result (refund_crowdloan e i False False p) = Inr (True, ''Refund transaction submitted.'')"
    unfolding here result_def by simp
  have tr: "trace (refund_crowdloan e i False False p) =
             Gather_crowdloan_and_block i # refund_information e i c (get_block_number e)
               @ (if p then [Confirm_ask i] else [])
               @ [Unlock_key, Compose_call ''Crowdloan'' ''refund'' i, Create_signed_extrinsic,
                  Submit_extrinsic False False, Console_print Refund_submitted_text]"
    unfolding here trace_def by simp
  have no_events: "Process_events \<notin> set (trace (refund_crowdloan e i False False p))"
    unfolding tr by (simp add: refund_information_members)
  have no_flag: "Is_success \<notin> set (trace (refund_crowdloan e i False False p))"
    unfolding tr by (simp add: refund_information_members)
  have "refund_crowdloan (e\<lparr>submit_extrinsic := r\<rparr>) i False False p =
      (Inr (True, ''Refund transaction submitted.''),
       Gather_crowdloan_and_block i
         # refund_information (e\<lparr>submit_extrinsic := r\<rparr>) i c
             (get_block_number (e\<lparr>submit_extrinsic := r\<rparr>))
         @ (if p then [Confirm_ask i] else [])
         @ [Unlock_key, Compose_call ''Crowdloan'' ''refund'' i, Create_signed_extrinsic,
            Submit_extrinsic False False, Console_print Refund_submitted_text])"
    using assms(1,3,4,5) by (intro run) simp_all
  then have same: "refund_crowdloan (e\<lparr>submit_extrinsic := r\<rparr>) i False False p
      = refund_crowdloan e i False False p"
    unfolding here by (simp add: refund_information_submit_extrinsic)
  from res tr no_events no_flag same show ?thesis by blast
qed

text \<open>Scenario E, with a receipt that would report a failure.\<close>

theorem refund_submitted_without_wait_witness:
  "get_single_crowdloan (scenario crowdloan_7 150 100 True unlock_ok receipt_insufficient_funds) 7
     = Some crowdloan_7
   \<and> \<not> finalized crowdloan_7
   \<and> end_block crowdloan_7
       \<le> get_block_number (scenario crowdloan_7 150 100 True unlock_ok receipt_insufficient_funds)
   \<and> confirm_ask (scenario crowdloan_7 150 100 True unlock_ok receipt_insufficient_funds)
   \<and> success (unlock_key (scenario crowdloan_7 150 100 True unlock_ok receipt_insufficient_funds))
   \<and> result (refund_crowdloan (scenario crowdloan_7 150 100 True unlock_ok receipt_insufficient_funds)
         7 False False True) = Inr (True, ''Refund transaction submitted.'')
   \<and> Is_success \<notin> set (trace (refund_crowdloan
         (scenario crowdloan_7 150 100 True unlock_ok receipt_insufficient_funds) 7 False False True))"
proof -
  let ?e = "scenario crowdloan_7 150 100 True unlock_ok receipt_insufficient_funds"
  have a: "get_single_crowdloan ?e 7 = Some crowdloan_7" "\<not> finalized crowdloan_7"
    "end_block crowdloan_7 \<le> get_block_number ?e" "True \<longrightarrow> confirm_ask ?e"
    "success (unlock_key ?e)"
    by (simp_all add: scenario_def crowdloan_7_def unlock_ok_def)
  from refund_submitted_without_wait [OF a]
  have "result (refund_crowdloan ?e 7 False False True) = Inr (True, ''Refund transaction submitted.'')
      \<and> Is_success \<notin> set (trace (refund_crowdloan ?e 7 False False True))"
    by blast
  with a show ?thesis by blast
qed

text \<open>
  Claim C3 says that, when inclusion or finalization is waited for and the receipt reports
  a failure, the run returns \<open>False\<close> with the name of the error, or with "Unknown error".
  The source does not return there: line 174 calls \<open>get\<close> on the attribute
  \<open>error_message\<close> and awaits the answer. When the attribute is an awaitable, as
  \<open>is_success\<close> is, the call raises \<open>AttributeError\<close>; when it is a dictionary, the answer is
  a string and awaiting it raises \<open>TypeError\<close>. In both cases the run ends with an
  exception, after printing the error, and returns no pair.
\<close>

theorem refund_rejected_by_chain_raises:
  assumes "get_single_crowdloan e i = Some c" and "\<not> finalized c"
    and "end_block c \<le> get_block_number e"
    and "p \<longrightarrow> confirm_ask e" and "success (unlock_key e)"
    and "winc \<or> wfin" and "\<not> is_success (submit_extrinsic e winc wfin)"
  shows "result (refund_crowdloan e i winc wfin p) =
           Inl (case error_message (submit_extrinsic e winc wfin) of
                  Awaitable_dict d \<Rightarrow> AttributeError
                | Plain_dict d \<Rightarrow> TypeError)
         \<and> result (refund_crowdloan e i winc wfin p) \<noteq> Inr (False, msg)"
proof -
  have "result (refund_crowdloan e i winc wfin p) = fst (submit_refund e i winc wfin)"
    using assms(1-5)
    by (simp add: refund_crowdloan_eligible confirm_and_submit_unlocked result_def)
  also have "\<dots> = rejected_result (submit_extrinsic e winc wfin)"
    using assms(6,7) by (rule submit_refund_failed)
  finally have "result (refund_crowdloan e i winc wfin p) =
           Inl (case error_message (submit_extrinsic e winc wfin) of
                  Awaitable_dict d \<Rightarrow> AttributeError
                | Plain_dict d \<Rightarrow> TypeError)"
    by (simp only: rejected_result_raises)
  then show ?thesis by simp
qed

text \<open>
  Scenario F, full wait, the error named "InsufficientFunds": with the error message as
  an awaitable, and as a dictionary.
\<close>

theorem refund_rejected_by_chain_raises_witness:
  "get_single_crowdloan (scenario crowdloan_7 150 100 True unlock_ok receipt_insufficient_funds) 7
     = Some crowdloan_7
   \<and> \<not> finalized crowdloan_7
   \<and> end_block crowdloan_7
       \<le> get_block_number (scenario crowdloan_7 150 100 True unlock_ok receipt_insufficient_funds)
   \<and> confirm_ask (scenario crowdloan_7 150 100 True unlock_ok receipt_insufficient_funds)
   \<and> success (unlock_key (scenario crowdloan_7 150 100 True unlock_ok receipt_insufficient_funds))
   \<and> \<not> is_success (submit_extrinsic
         (scenario crowdloan_7 150 100 True unlock_ok receipt_insufficient_funds) True True)
   \<and> result (refund_crowdloan (scenario crowdloan_7 150 100 True unlock_ok receipt_insufficient_funds)
         7 True True True) = Inl AttributeError
   \<and> result (refund_crowdloan (scenario crowdloan_7 150 100 True unlock_ok receipt_plain_dict)
         7 True True True) = Inl TypeError
   \<and> result (refund_crowdloan (scenario crowdloan_7 150 100 True unlock_ok receipt_insufficient_funds)
         7 True True True) \<noteq> Inr (False, ''InsufficientFunds'')"
proof -
  let ?e = "scenario crowdloan_7 150 100 True unlock_ok receipt_insufficient_funds"
  let ?e' = "scenario crowdloan_7 150 100 True unlock_ok receipt_plain_dict"
  have a: "get_single_crowdloan ?e 7 = Some crowdloan_7" "\<not> finalized crowdloan_7"
    "end_block crowdloan_7 \<le> get_block_number ?e" "True \<longrightarrow> confirm_ask ?e"
    "success (unlock_key ?e)" "True \<or> True" "\<not> is_success (submit_extrinsic ?e True True)"
    by (simp_all add: scenario_def crowdloan_7_def unlock_ok_def receipt_insufficient_funds_def)
  have b: "get_single_crowdloan ?e' 7 = Some crowdloan_7" "\<not> finalized crowdloan_7"
    "end_block crowdloan_7 \<le> get_block_number ?e'" "True \<longrightarrow> confirm_ask ?e'"
    "success (unlock_key ?e')" "True \<or> True" "\<not> is_success (submit_extrinsic ?e' True True)"
    by (simp_all add: scenario_def crowdloan_7_def unlock_ok_def receipt_plain_dict_def)
  have n: "error_message (submit_extrinsic ?e True True)
      = Awaitable_dict [(''type'', ''Module''), (''name'', ''InsufficientFunds'')]"
    by (simp add: scenario_def receipt_insufficient_funds_def)
  have n': "error_message (submit_extrinsic ?e' True True)
      = Plain_dict [(''type'', ''Module''), (''name'', ''InsufficientFunds'')]"
    by (simp add: scenario_def receipt_plain_dict_def)
  from refund_rejected_by_chain_raises [OF a, of "''InsufficientFunds''"]
  have r: "result (refund_crowdloan ?e 7 True True True) = Inl AttributeError"
    and r'': "result (refund_crowdloan ?e 7 True True True) \<noteq> Inr (False, ''InsufficientFunds'')"
    unfolding n by simp_all
  from refund_rejected_by_chain_raises [OF b, of "''InsufficientFunds''"]
  have r': "result (refund_crowdloan ?e' 7 True True True) = Inl TypeError"
    unfolding n' by simp
  from a r r' r'' show ?thesis by blast
qed

end
